theory Spec2Isabelle
  imports Complex_Main "HOL-Library.Sublist"
begin

section \<open>scrapetable: pulling one table out of a downloaded page\<close>

text \<open>
  A shallow embedding of \<^verbatim>\<open>scrapetable.py\<close>. The module is glue around four
  libraries (cjwmodule, cjwparquet, pandas, cjwparse). What the module itself computes
  is embedded as HOL functions; the library calls whose results it only passes on
  (the HTML parser, the CSV parser, the header lookup) are parameters, collected in the
  record \<open>externals\<close>, so every theorem that leaves them open holds whatever those
  libraries return. Where a statement is about the table the CSV parser writes, the
  parser is the one the specification describes, modelled in a subsection of its own.
\<close>

subsection \<open>Messages and errors\<close>

text \<open>
  \<^verbatim>\<open>cjwmodule.i18n.I18nMessage\<close> is a named tuple of a message id, a dict of
  arguments and a source. The dicts built here hold one entry at most, so an association
  list stands for the dict.
\<close>

datatype i18n_arg = StrArg string | IntArg int

datatype i18n_message =
  I18nMessage (msg_id: string) (arguments: "(string \<times> i18n_arg) list") (source: "string option")

text \<open>
  \<^verbatim>\<open>cjwmodule.i18n.trans(id, default, arguments)\<close> builds the message of a module:
  the default text serves message extraction only and is not part of the value.
\<close>

definition trans_msg :: "string \<Rightarrow> string \<Rightarrow> (string \<times> i18n_arg) list \<Rightarrow> i18n_message" where
  "trans_msg ident default_text args = I18nMessage ident args (Some ''module'')"

text \<open>\<^verbatim>\<open>class RenderError(NamedTuple)\<close>: a message and a list of quick fixes (all None).\<close>

datatype render_error =
  RenderError (message: i18n_message) (quick_fixes: "unit list")

text \<open>
  The list \<^verbatim>\<open>render\<close> returns is a Python list: nothing forces its elements to be
  of one class. The two classes that reach it are messages and whole \<^verbatim>\<open>RenderError\<close>
  tuples; a named tuple of two fields never equals one of three, so the two are kept
  apart.
\<close>

datatype returned = Msg i18n_message | Err render_error

subsection \<open>Settings, parameters, data frames\<close>

text \<open>
  \<^verbatim>\<open>class Settings(Protocol)\<close>. The module never reads a field: it hands the whole
  object to \<^verbatim>\<open>cjwparse.csv.parse_csv\<close>.
\<close>

record settings =
  MAX_ROWS_PER_TABLE :: int
  MAX_COLUMNS_PER_TABLE :: int
  MAX_BYTES_PER_VALUE :: int
  MAX_BYTES_TEXT_DATA :: int
  MAX_BYTES_PER_COLUMN_NAME :: int
  MAX_CSV_BYTES :: int
  MAX_DICTIONARY_PYLIST_N_BYTES :: int
  MIN_DICTIONARY_COMPRESSION_RATIO_PYLIST_N_BYTES :: real

text \<open>The \<^verbatim>\<open>params\<close> dict, with the three keys the module looks up.\<close>

record params =
  url :: string
  tablenum :: int
  first_row_is_header :: bool

text \<open>
  A column name as \<^verbatim>\<open>pandas.read_html\<close> gives it:
  \<^verbatim>\<open>Union[int, str, Tuple[str]]\<close>.
\<close>

datatype colname = IntName int | StrName string | TupleName "string list"

text \<open>
  A pandas DataFrame, as far as the module looks at it: its column index and its rows,
  every cell held as the text \<^verbatim>\<open>to_csv\<close> writes for it. \<^verbatim>\<open>len(table)\<close> is the
  number of rows.
\<close>

record 'n dataframe =
  columns :: "'n list"
  rows :: "string list list"

subsection \<open>\<^verbatim>\<open>_merge_colspan_headers\<close>\<close>

text \<open>
  \<^verbatim>\<open>dict((s, None) for s in name).keys()\<close>: the keys of a dict filled from left to
  right. A key already present keeps its place; a new key goes to the end. The first
  argument is the keys inserted so far.
\<close>

fun dict_keys :: "string list \<Rightarrow> string list \<Rightarrow> string list" where
  "dict_keys keys [] = keys"
| "dict_keys keys (s # ss) =
     (if s \<in> set keys then dict_keys keys ss else dict_keys (keys @ [s]) ss)"

text \<open>\<^verbatim>\<open>sep.join(parts)\<close>.\<close>

fun str_join :: "string \<Rightarrow> string list \<Rightarrow> string" where
  "str_join sep [] = []"
| "str_join sep [x] = x"
| "str_join sep (x # y # ys) = x @ sep @ str_join sep (y # ys)"

text \<open>The body of the loop: the three branches on the class of \<^verbatim>\<open>name\<close>.\<close>

fun merge_name :: "colname \<Rightarrow> string" where
  "merge_name (TupleName name) = str_join '' - '' (dict_keys [] name)"
| "merge_name (IntName i) = []"
| "merge_name (StrName name) = name"

text \<open>The loop \<^verbatim>\<open>for name in names: ... ret.append(name)\<close>, with \<open>ret\<close> threaded.\<close>

fun merge_loop :: "string list \<Rightarrow> colname list \<Rightarrow> string list" where
  "merge_loop ret [] = ret"
| "merge_loop ret (name # names) = merge_loop (ret @ [merge_name name]) names"

definition merge_colspan_headers :: "colname list \<Rightarrow> string list" where
  "merge_colspan_headers names = merge_loop [] names"

subsection \<open>The files a fetch leaves behind\<close>

text \<open>
  \<^verbatim>\<open>httpfile.read(path)\<close> gives the captured response: its status line, its
  headers in order, and its body.
\<close>

record http_file =
  status_line :: string
  headers :: "(string \<times> string) list"
  body :: string

text \<open>
  The file at \<^verbatim>\<open>fetch_result.path\<close>, as the answers the readers of the module give
  about it: \<^verbatim>\<open>path.stat().st_size\<close>, \<^verbatim>\<open>cjwparquet.file_has_parquet_magic_number\<close>,
  the table \<^verbatim>\<open>cjwparquet.open_as_mmapped_arrow(path)\<close> holds, after
  \<^verbatim>\<open>to_pandas\<close> (Parquet column names are strings), and \<^verbatim>\<open>httpfile.read(path)\<close>.
\<close>

record fetched_file =
  st_size :: nat
  file_has_parquet_magic_number :: bool
  open_as_mmapped_arrow :: "string dataframe"
  httpfile_read :: http_file

text \<open>\<^verbatim>\<open>class FetchResult(NamedTuple)\<close>.\<close>

record FetchResult =
  path :: fetched_file
  errors :: "render_error list"

subsection \<open>The libraries\<close>

text \<open>
  \<^verbatim>\<open>pd.io.html._parse\<close> returns the tables of the page, or raises: the module
  catches \<^verbatim>\<open>ValueError\<close> and \<^verbatim>\<open>IndexError\<close>.
\<close>

datatype parse_outcome =
  Tables "colname dataframe list" | ValueError | IndexError

text \<open>
  The library functions taken as they come: \<^verbatim>\<open>httpfile.extract_first_header\<close>
  (headers, key), \<^verbatim>\<open>pd.io.html._parse\<close> (body, encoding; every other argument is
  a constant of the call) and \<^verbatim>\<open>cjwparse.csv.parse_csv\<close> (settings, the records of
  the CSV file; \<^verbatim>\<open>has_header=True\<close>, so the first record is the header), which
  writes a table of type \<open>'t\<close> to \<^verbatim>\<open>output_path\<close> and returns its warnings.
\<close>

record 't externals =
  extract_first_header :: "(string \<times> string) list \<Rightarrow> string \<Rightarrow> string option"
  pd_io_html_parse :: "string \<Rightarrow> string option \<Rightarrow> parse_outcome"
  parse_csv :: "settings \<Rightarrow> string list list \<Rightarrow> i18n_message list \<times> 't"

subsection \<open>\<^verbatim>\<open>_write_dataframe_as_arrow_table_and_handle_lots_of_edge_cases\<close>\<close>

text \<open>
  The \<^verbatim>\<open>header\<close> argument of \<^verbatim>\<open>DataFrame.to_csv\<close>: \<^verbatim>\<open>False\<close>, or a list
  of names to write as the first record. With \<^verbatim>\<open>index=False\<close> the file is that
  record, when there is one, and then one record per row.
\<close>

datatype header_arg = HeaderFalse | HeaderNames "string list"

fun to_csv :: "'n dataframe \<Rightarrow> header_arg \<Rightarrow> string list list" where
  "to_csv table HeaderFalse = rows table"
| "to_csv table (HeaderNames names) = names # rows table"

definition write_dataframe_as_arrow_table_and_handle_lots_of_edge_cases ::
  "'t externals \<Rightarrow> 'n dataframe \<Rightarrow> bool \<Rightarrow> string list \<Rightarrow> settings
    \<Rightarrow> i18n_message list \<times> 't" where
  "write_dataframe_as_arrow_table_and_handle_lots_of_edge_cases ext table is_header colnames stg =
     (let header = (if is_header \<and> length (rows table) \<noteq> 0
                    then HeaderFalse else HeaderNames colnames)
      in parse_csv ext stg (to_csv table header))"

subsection \<open>\<^verbatim>\<open>_render_v0\<close>\<close>

text \<open>
  The result of a render is the returned list and what was written to
  \<^verbatim>\<open>output_path\<close>: \<open>None\<close> when nothing was written.
  \<^verbatim>\<open>fetch_result.errors + render_errors\<close> puts the \<^verbatim>\<open>RenderError\<close> tuples
  themselves in front.
\<close>

definition render_v0 ::
  "'t externals \<Rightarrow> FetchResult \<Rightarrow> params \<Rightarrow> settings \<Rightarrow> returned list \<times> 't option" where
  "render_v0 ext fetch_result prm stg =
     (let table = open_as_mmapped_arrow (path fetch_result);
          (render_errors, written) =
            write_dataframe_as_arrow_table_and_handle_lots_of_edge_cases
              ext table (first_row_is_header prm) (columns table) stg
      in (map Err (errors fetch_result) @ map Msg render_errors, Some written))"

subsection \<open>\<^verbatim>\<open>render\<close>\<close>

text \<open>
  \<^verbatim>\<open>s.split(sep)\<close> for a separator that is not empty (Python raises on the empty
  one, and the module splits on a literal): the pieces between the occurrences of
  \<open>sep\<close>, found from the left and not overlapping.
\<close>

function str_split :: "string \<Rightarrow> string \<Rightarrow> string list" where
  "str_split sep [] = [[]]"
| "str_split sep (c # cs) =
     (if sep \<noteq> [] \<and> prefix sep (c # cs)
      then [] # str_split sep (drop (length sep) (c # cs))
      else (case str_split sep cs of
              [] \<Rightarrow> [[c]]
            | piece # pieces \<Rightarrow> (c # piece) # pieces))"
  by pat_completeness auto
termination
  by (relation "measure (\<lambda>(sep, s). length s)") auto

text \<open>
  Lines 217 to 224: the \<^verbatim>\<open>encoding\<close> read off the Content-Type value.
  \<^verbatim>\<open>if content_type\<close> fails on \<^verbatim>\<open>None\<close> and on the empty string;
  \<^verbatim>\<open>split("charset=")[1]\<close> raises \<^verbatim>\<open>IndexError\<close>, which is caught, when the
  split has one piece.
\<close>

definition encoding :: "string option \<Rightarrow> string option" where
  "encoding content_type =
     (case content_type of
        None \<Rightarrow> None
      | Some ct \<Rightarrow>
          if ct = [] then None
          else (case str_split ''charset='' ct of
                  _ # e # _ \<Rightarrow> Some e
                | _ \<Rightarrow> None))"

definition render ::
  "'t externals \<Rightarrow> params \<Rightarrow> FetchResult \<Rightarrow> settings \<Rightarrow> returned list \<times> 't option" where
  "render ext prm fetch_result stg =
     (let errs = map (\<lambda>e. Msg (message e)) (errors fetch_result) in
      if st_size (path fetch_result) = 0 then (errs, None)
      else if file_has_parquet_magic_number (path fetch_result)
      then render_v0 ext fetch_result prm stg
      else
        let http = httpfile_read (path fetch_result) in
        if status_line http \<noteq> ''200 OK''
        then (errs @ [Msg (trans_msg ''http.notOk''
                        ''Server gave unexpected HTTP response: {httpStatus}''
                        [(''httpStatus'', StrArg (status_line http))])], None)
        else
          let content_type = extract_first_header ext (headers http) ''Content-Type'' in
          case pd_io_html_parse ext (body http) (encoding content_type) of
            ValueError \<Rightarrow>
              (errs @ [Msg (trans_msg ''html.noTables''
                         ''Did not find any <table> tags in this page'' [])], None)
          | IndexError \<Rightarrow>
              (errs @ [Msg (trans_msg ''html.noColumns''
                         ''Found a <table> tag with no columns'' [])], None)
          | Tables tables \<Rightarrow>
              if length tables = 0
              then (errs @ [Msg (trans_msg ''html.noTables''
                              ''Did not find any <table> tags in this page'' [])], None)
              else if tablenum prm \<le> 0 \<or> tablenum prm > int (length tables)
              then (errs @ [Msg (trans_msg ''params.badTablenum''
                              ''Please choose a table position between 1 and {nTables}''
                              [(''nTables'', IntArg (int (length tables)))])], None)
              else
                let table = tables ! nat (tablenum prm - 1);
                    (warnings, written) =
                      write_dataframe_as_arrow_table_and_handle_lots_of_edge_cases
                        ext table (first_row_is_header prm)
                        (merge_colspan_headers (columns table)) stg
                in (errs @ map Msg warnings, Some written))"

subsection \<open>The tabular parser, from the specification\<close>

text \<open>
  Modelled from the spec: \<^verbatim>\<open>cjwparse.csv.parse_csv\<close>, which the module calls at
  lines 146 to 154, is not under \<^verbatim>\<open>src/\<close>. The definitions of this subsection follow
  section 4.4 of the specification (NormalizationGuardrails), responsibilities 2 to 6 in
  the order it gives them, on a file whose first record is the header, as
  \<^verbatim>\<open>has_header=True\<close> in the call says. Responsibility 1, the choice of the header,
  is the module's own and is embedded above. Responsibility 7, type inference, the
  specification leaves to its external collaborator without saying how it decides, so
  the values of the written table stay text. The NoColumns failure of section 4.4 is
  raised in \<^verbatim>\<open>render\<close> (lines 252 to 258), the only place of the source that builds
  \<^verbatim>\<open>html.noColumns\<close>, and is not repeated here.

  The written table, a NormalizedTable: its columns in order, each a name and its values.
\<close>

type_synonym normalized_table = "(string \<times> string list) list"

text \<open>
  Modelled from the spec: the decimal numeral of a position, for the placeholder
  \<open>"Column N"\<close> of responsibility 2.
\<close>

function decimal :: "nat \<Rightarrow> string" where
  "decimal n =
     (if n < 10 then [''0123456789'' ! n]
      else decimal (n div 10) @ [''0123456789'' ! (n mod 10)])"
  by pat_completeness auto
termination
  by (relation "measure (\<lambda>n. n)") auto

declare decimal.simps [simp del]

text \<open>
  Modelled from the spec: "blank labels are auto-named (\<open>"Column N"\<close> using 1-based
  position)". The first argument is the position of the head of the list.
\<close>

fun autoname :: "nat \<Rightarrow> string list \<Rightarrow> string list" where
  "autoname n [] = []"
| "autoname n (label # labels) =
     (if label = [] then ''Column '' @ decimal n else label) # autoname (Suc n) labels"

text \<open>
  Modelled from the spec: "duplicate labels are disambiguated deterministically by
  position". A label that an earlier column already bears gets its own 1-based position
  appended; the second argument is the names given so far.
\<close>

fun disambiguate :: "nat \<Rightarrow> string list \<Rightarrow> string list \<Rightarrow> string list" where
  "disambiguate n used [] = []"
| "disambiguate n used (label # labels) =
     (let name = (if label \<in> set used then label @ '' '' @ decimal n else label)
      in name # disambiguate (Suc n) (used @ [name]) labels)"

text \<open>
  Modelled from the spec: "report a cleanup diagnostic once per distinct cleanup reason,
  with parameters naming the affected count and one example". The message of the
  auto-naming is the one \<^verbatim>\<open>test_render_v1_no_thead\<close> expects
  (\<open>util.colnames.warnings.default\<close> with \<open>n_columns\<close> and \<open>first_colname\<close>); the
  specification names no code for the other reasons, and they are built alike.
\<close>

definition cleanup_warning :: "string \<Rightarrow> string list \<Rightarrow> string list \<Rightarrow> i18n_message list" where
  "cleanup_warning ident before after =
     (let changed = map snd (filter (\<lambda>(b, a). b \<noteq> a) (zip before after))
      in case changed of
           [] \<Rightarrow> []
         | example # _ \<Rightarrow>
             [I18nMessage ident
                [(''n_columns'', IntArg (int (length changed))), (''first_colname'', StrArg example)]
                (Some ''cjwmodule'')])"

text \<open>
  Modelled from the spec: the diagnostics of responsibilities 3 to 5, each "counted into
  a diagnostic" when something was dropped or cut. The specification gives these codes
  no name ("cleanup/truncation codes"), so the identifier only tells them apart.
\<close>

definition truncation_warning :: "string \<Rightarrow> nat \<Rightarrow> i18n_message list" where
  "truncation_warning ident n =
     (if n = 0 then [] else [I18nMessage ident [(''n'', IntArg (int n))] (Some ''cjwparse'')])"

text \<open>
  Modelled from the spec: "short rows are padded, not an error" (RawGrid): the cell of a
  row at a column, empty past the end of the row.
\<close>

definition cell :: "string list \<Rightarrow> nat \<Rightarrow> string" where
  "cell row j = (if j < length row then row ! j else [])"

text \<open>
  Modelled from the spec: responsibility 6, "once total text payload would exceed
  \<open>MAX_BYTES_TEXT_DATA\<close>, no further rows are accepted; already-accepted rows are
  kept, the rest dropped". The first argument is what is left of the limit.
\<close>

fun accept_rows :: "nat \<Rightarrow> string list list \<Rightarrow> string list list" where
  "accept_rows budget [] = []"
| "accept_rows budget (row # later) =
     (let payload = sum_list (map length row)
      in if payload \<le> budget then row # accept_rows (budget - payload) later else [])"

text \<open>
  Modelled from the spec: responsibility 2, label cleanup: auto-naming, then
  disambiguation, then "labels longer than \<open>MAX_BYTES_PER_COLUMN_NAME\<close> are truncated
  at a byte boundary"; and its diagnostics, one per reason.
\<close>

definition clean_labels :: "settings \<Rightarrow> string list \<Rightarrow> string list" where
  "clean_labels stg labels =
     map (take (nat (MAX_BYTES_PER_COLUMN_NAME stg))) (disambiguate 1 [] (autoname 1 labels))"

definition label_warnings :: "settings \<Rightarrow> string list \<Rightarrow> i18n_message list" where
  "label_warnings stg labels =
     (let named = autoname 1 labels;
          numbered = disambiguate 1 [] named
      in cleanup_warning ''util.colnames.warnings.default'' labels named
         @ cleanup_warning ''util.colnames.warnings.numbered'' named numbered
         @ cleanup_warning ''util.colnames.warnings.truncated'' numbered (clean_labels stg labels))"

text \<open>
  Modelled from the spec: the parser as a whole. The first record is the header; rows
  beyond \<open>MAX_ROWS_PER_TABLE\<close> are dropped (3); columns beyond
  \<open>MAX_COLUMNS_PER_TABLE\<close> are dropped from the right (4); texts longer than
  \<open>MAX_BYTES_PER_VALUE\<close> are cut (5); rows are accepted while the payload fits (6).
  It returns the diagnostics in the order they are detected and the table it writes.
\<close>

definition spec_parse_csv :: "settings \<Rightarrow> string list list \<Rightarrow> i18n_message list \<times> normalized_table" where
  "spec_parse_csv stg records =
     (let labels = (case records of [] \<Rightarrow> [] | header # _ \<Rightarrow> header);
          data = (case records of [] \<Rightarrow> [] | _ # rest \<Rightarrow> rest);
          names = clean_labels stg labels;
          kept_rows = take (nat (MAX_ROWS_PER_TABLE stg)) data;
          kept_names = take (nat (MAX_COLUMNS_PER_TABLE stg)) names;
          grid = map (\<lambda>row. map (cell row) [0..<length kept_names]) kept_rows;
          cut = map (map (take (nat (MAX_BYTES_PER_VALUE stg)))) grid;
          accepted = accept_rows (nat (MAX_BYTES_TEXT_DATA stg)) cut
      in (label_warnings stg labels
          @ truncation_warning ''rows'' (length data - length kept_rows)
          @ truncation_warning ''columns'' (length names - length kept_names)
          @ truncation_warning ''values''
              (length (filter (\<lambda>v. nat (MAX_BYTES_PER_VALUE stg) < length v) (concat grid))),
          map (\<lambda>j. (kept_names ! j, map (\<lambda>row. row ! j) accepted)) [0..<length kept_names]))"

text \<open>
  Two notions for stating what the parser does to a grid that needs no cleanup. A header
  and its data rows are within the limits when no guardrail has anything to do: the
  labels are distinct, none is blank or too long, there are not too many, the rows are
  not too many and as wide as the header, and no text and no payload is too large. The
  columns of such a grid are its labels, each over the cells below it.
\<close>

definition within_limits :: "settings \<Rightarrow> string list \<Rightarrow> string list list \<Rightarrow> bool" where
  "within_limits stg labels data \<longleftrightarrow>
     distinct labels
     \<and> (\<forall>label \<in> set labels. label \<noteq> [] \<and> int (length label) \<le> MAX_BYTES_PER_COLUMN_NAME stg)
     \<and> int (length labels) \<le> MAX_COLUMNS_PER_TABLE stg
     \<and> int (length data) \<le> MAX_ROWS_PER_TABLE stg
     \<and> (\<forall>row \<in> set data. length row = length labels
           \<and> (\<forall>v \<in> set row. int (length v) \<le> MAX_BYTES_PER_VALUE stg))
     \<and> int (sum_list (map (\<lambda>row. sum_list (map length row)) data)) \<le> MAX_BYTES_TEXT_DATA stg"

definition columns_of :: "string list \<Rightarrow> string list list \<Rightarrow> normalized_table" where
  "columns_of labels data = map (\<lambda>j. (labels ! j, map (\<lambda>row. row ! j) data)) [0..<length labels]"

subsection \<open>The inputs of the test suite\<close>

text \<open>
  \<^verbatim>\<open>tests/test_render.py\<close> builds its inputs with a few helpers. They are repeated
  here for the concrete instances below. The libraries of an instance: a header lookup
  by exact name, an HTML parser that finds the given tables, and a CSV parser that warns
  of nothing and writes the records it was given.
\<close>

definition DefaultSettings :: settings where
  "DefaultSettings =
     \<lparr>MAX_ROWS_PER_TABLE = 1000, MAX_COLUMNS_PER_TABLE = 10, MAX_BYTES_PER_VALUE = 10000,
      MAX_BYTES_TEXT_DATA = 100000, MAX_BYTES_PER_COLUMN_NAME = 100, MAX_CSV_BYTES = 1000000,
      MAX_DICTIONARY_PYLIST_N_BYTES = 1000,
      MIN_DICTIONARY_COMPRESSION_RATIO_PYLIST_N_BYTES = 2\<rparr>"

definition P :: "int \<Rightarrow> bool \<Rightarrow> params" where
  "P n is_header = \<lparr>url = ''http://example.org/file'', tablenum = n, first_row_is_header = is_header\<rparr>"

definition no_table :: "'n dataframe" where
  "no_table = \<lparr>columns = [], rows = []\<rparr>"

definition no_response :: http_file where
  "no_response = \<lparr>status_line = [], headers = [], body = []\<rparr>"

definition empty_file :: fetched_file where
  "empty_file =
     \<lparr>st_size = 0, file_has_parquet_magic_number = False,
      open_as_mmapped_arrow = no_table, httpfile_read = no_response\<rparr>"

definition temp_parquet_file :: "string dataframe \<Rightarrow> fetched_file" where
  "temp_parquet_file table =
     \<lparr>st_size = 4 + length (rows table), file_has_parquet_magic_number = True,
      open_as_mmapped_arrow = table, httpfile_read = no_response\<rparr>"

definition temp_httpfile :: "string \<Rightarrow> string \<Rightarrow> (string \<times> string) list \<Rightarrow> fetched_file" where
  "temp_httpfile status content hdrs =
     \<lparr>st_size = 1 + length status + length content, file_has_parquet_magic_number = False,
      open_as_mmapped_arrow = no_table,
      httpfile_read = \<lparr>status_line = status, headers = hdrs, body = content\<rparr>\<rparr>"

definition test_libraries :: "colname dataframe list \<Rightarrow> (string list list) externals" where
  "test_libraries tables =
     \<lparr>extract_first_header = (\<lambda>hdrs key. map_of hdrs key),
      pd_io_html_parse = (\<lambda>content enc. Tables tables),
      parse_csv = (\<lambda>stg records. ([], records))\<rparr>"

definition HttpErrorTimeout :: i18n_message where
  "HttpErrorTimeout = I18nMessage ''http.errors.HttpErrorTimeout'' [] (Some ''cjwmodule'')"

text \<open>The same libraries with the parser of the specification in place of the stub.\<close>

definition spec_libraries :: "colname dataframe list \<Rightarrow> normalized_table externals" where
  "spec_libraries tables =
     \<lparr>extract_first_header = (\<lambda>hdrs key. map_of hdrs key),
      pd_io_html_parse = (\<lambda>content enc. Tables tables),
      parse_csv = spec_parse_csv\<rparr>"

section \<open>The header merger\<close>

lemma merge_loop_map: "merge_loop ret names = ret @ map merge_name names"
  by (induction names arbitrary: ret) simp_all

lemma dict_keys_set: "set (dict_keys keys ss) = set keys \<union> set ss"
  by (induction ss arbitrary: keys) auto

lemma dict_keys_distinct: "distinct keys \<Longrightarrow> distinct (dict_keys keys ss)"
  by (induction ss arbitrary: keys) auto

lemma remdups_snoc:
  "remdups (xs @ [s]) = filter (\<lambda>x. x \<noteq> s) (remdups xs) @ [s]"
  by (induction xs) auto

text \<open>
  \<open>rev (remdups (rev ss))\<close> is \<open>ss\<close> with every text kept at its first occurrence
  only: its head is the head of \<open>ss\<close>, and the later copies of the head are gone.
\<close>

lemma first_occurrences_Cons:
  "rev (remdups (rev (s # ss))) = s # filter (\<lambda>x. x \<noteq> s) (rev (remdups (rev ss)))"
  by (simp add: remdups_snoc rev_filter)

lemma dict_keys_from:
  "dict_keys keys ss = keys @ filter (\<lambda>s. s \<notin> set keys) (rev (remdups (rev ss)))"
proof (induction ss arbitrary: keys)
  case Nil
  show ?case by simp
next
  case (Cons s ss)
  let ?firsts = "rev (remdups (rev ss))"
  show ?case
  proof (cases "s \<in> set keys")
    case True
    have "filter (\<lambda>x. x \<notin> set keys) (filter (\<lambda>x. x \<noteq> s) ?firsts)
        = filter (\<lambda>x. x \<notin> set keys) ?firsts"
      using True by (auto intro!: filter_cong)
    then show ?thesis
      using True Cons.IH [of keys] by (simp only: first_occurrences_Cons) simp
  next
    case False
    have "filter (\<lambda>x. x \<notin> set (keys @ [s])) ?firsts
        = filter (\<lambda>x. x \<notin> set keys) (filter (\<lambda>x. x \<noteq> s) ?firsts)"
      by (auto intro!: filter_cong)
    then show ?thesis
      using False Cons.IH [of "keys @ [s]"] by (simp only: first_occurrences_Cons) simp
  qed
qed

lemma dict_keys_first_occurrences: "dict_keys [] ss = rev (remdups (rev ss))"
  by (simp add: dict_keys_from)


text \<open>
  Claim C6. A tuple of header texts becomes its distinct texts, each at its first
  occurrence and in that order, joined from top to bottom by \<open>" - "\<close>; an integer
  (positional) name becomes the empty string. So \<open>('year', 'year')\<close> gives
  \<open>'year'\<close>, and a cell \<open>Category\<close> spanning the two sub-headers \<open>A\<close> and \<open>B\<close>
  gives \<open>'Category - A'\<close> and \<open>'Category - B'\<close>.
\<close>

theorem merge_colspan_headers_labels:
  "merge_colspan_headers names =
     map (\<lambda>name. case name of
            TupleName texts \<Rightarrow> str_join '' - '' (rev (remdups (rev texts)))
          | IntName i \<Rightarrow> []
          | StrName text \<Rightarrow> text) names
   \<and> merge_colspan_headers [TupleName [''year'', ''year'']] = [''year'']
   \<and> merge_colspan_headers [TupleName [''year'', ''month'']] = [''year - month'']
   \<and> merge_colspan_headers [TupleName [''Category'', ''A''], TupleName [''Category'', ''B'']]
       = [''Category - A'', ''Category - B'']
   \<and> merge_colspan_headers [IntName 0, IntName 1] = ['''', '''']"
proof -
  have "merge_name name = (case name of
            TupleName texts \<Rightarrow> str_join '' - '' (rev (remdups (rev texts)))
          | IntName i \<Rightarrow> []
          | StrName text \<Rightarrow> text)" for name
    by (cases name) (simp_all add: dict_keys_first_occurrences)
  then have "merge_colspan_headers names =
     map (\<lambda>name. case name of
            TupleName texts \<Rightarrow> str_join '' - '' (rev (remdups (rev texts)))
          | IntName i \<Rightarrow> []
          | StrName text \<Rightarrow> text) names"
    by (simp add: merge_colspan_headers_def merge_loop_map)
  moreover have "merge_colspan_headers [TupleName [''year'', ''year'']] = [''year'']"
    by (simp add: merge_colspan_headers_def)
  moreover have "merge_colspan_headers [TupleName [''year'', ''month'']] = [''year - month'']"
    by (simp add: merge_colspan_headers_def)
  moreover have "merge_colspan_headers [TupleName [''Category'', ''A''], TupleName [''Category'', ''B'']]
       = [''Category - A'', ''Category - B'']"
    by (simp add: merge_colspan_headers_def)
  moreover have "merge_colspan_headers [IntName 0, IntName 1] = ['''', '''']"
    by (simp add: merge_colspan_headers_def)
  ultimately show ?thesis by blast
qed

text \<open>
  Claim C9. On names that are plain strings already the merger is the identity: the
  same labels, in the same order, as many as there were.
\<close>

theorem merge_colspan_headers_plain:
  "merge_colspan_headers (map StrName labels) = labels
   \<and> length (merge_colspan_headers (map StrName labels)) = length labels"
proof -
  have "map merge_name (map StrName labels) = labels"
    by (induction labels) simp_all
  then show ?thesis
    by (simp add: merge_colspan_headers_def merge_loop_map)
qed

section \<open>Header resolution\<close>

text \<open>
  The parser of the specification leaves a grid within the limits as it is: no
  diagnostic, the labels as column names, the rows as values.
\<close>

lemma autoname_named: "\<forall>label \<in> set labels. label \<noteq> [] \<Longrightarrow> autoname n labels = labels"
  by (induction labels arbitrary: n) simp_all

lemma disambiguate_distinct:
  "distinct labels \<Longrightarrow> set labels \<inter> set used = {} \<Longrightarrow> disambiguate n used labels = labels"
proof (induction labels arbitrary: n used)
  case Nil
  show ?case by simp
next
  case (Cons label labels)
  have "label \<notin> set used" using Cons.prems(2) by auto
  moreover have "set labels \<inter> set (used @ [label]) = {}"
    using Cons.prems by auto
  moreover have "distinct labels" using Cons.prems(1) by simp
  ultimately show ?case using Cons.IH [of "used @ [label]" "Suc n"] by simp
qed

lemma take_short: "\<forall>x \<in> set xs. length x \<le> k \<Longrightarrow> map (take k) xs = xs"
  by (induction xs) simp_all

lemma cleanup_warning_same: "cleanup_warning ident xs xs = []"
proof -
  have "filter (\<lambda>(b, a). b \<noteq> a) (zip xs xs) = []"
    by (auto simp: filter_empty_conv in_set_zip)
  then show ?thesis by (simp add: cleanup_warning_def)
qed

lemma accept_rows_all:
  "sum_list (map (\<lambda>row. sum_list (map length row)) data) \<le> budget \<Longrightarrow> accept_rows budget data = data"
  by (induction data arbitrary: budget) (simp_all add: Let_def)

lemma cells_of_full_row: "length row = k \<Longrightarrow> map (cell row) [0..<k] = row"
  by (auto simp: cell_def list_eq_iff_nth_eq)

lemma clean_labels_clean:
  assumes "distinct labels"
    and "\<forall>label \<in> set labels. label \<noteq> [] \<and> int (length label) \<le> MAX_BYTES_PER_COLUMN_NAME stg"
  shows "clean_labels stg labels = labels" and "label_warnings stg labels = []"
proof -
  have a: "autoname 1 labels = labels" using assms(2) by (simp add: autoname_named)
  have d: "disambiguate 1 [] labels = labels" using assms(1) by (simp add: disambiguate_distinct)
  have n: "disambiguate 1 [] (autoname 1 labels) = labels" by (simp only: a d)
  have "\<forall>label \<in> set labels. length label \<le> nat (MAX_BYTES_PER_COLUMN_NAME stg)"
    using assms(2) by auto
  then have t: "map (take (nat (MAX_BYTES_PER_COLUMN_NAME stg))) labels = labels"
    by (rule take_short)
  show c: "clean_labels stg labels = labels" by (simp only: clean_labels_def n t)
  show "label_warnings stg labels = []"
    by (simp only: label_warnings_def Let_def a d c cleanup_warning_same append_Nil)
qed

lemma spec_parse_csv_within_limits:
  assumes "within_limits stg labels data"
  shows "spec_parse_csv stg (labels # data) = ([], columns_of labels data)"
proof -
  have c: "clean_labels stg labels = labels" and w: "label_warnings stg labels = []"
    using assms clean_labels_clean [of labels stg] by (simp_all add: within_limits_def)
  have "length labels \<le> nat (MAX_COLUMNS_PER_TABLE stg)"
    using assms unfolding within_limits_def by linarith
  then have n: "take (nat (MAX_COLUMNS_PER_TABLE stg)) labels = labels"
    by simp
  have "length data \<le> nat (MAX_ROWS_PER_TABLE stg)"
    using assms unfolding within_limits_def by linarith
  then have r: "take (nat (MAX_ROWS_PER_TABLE stg)) data = data"
    by simp
  have g: "map (\<lambda>row. map (cell row) [0..<length labels]) data = data"
    using assms by (simp add: within_limits_def cells_of_full_row map_idI)
  have "n \<le> nat m" if "int n \<le> m" for n m
    using that by linarith
  then have s: "\<forall>row \<in> set data. \<forall>v \<in> set row. length v \<le> nat (MAX_BYTES_PER_VALUE stg)"
    using assms unfolding within_limits_def by blast
  then have f: "filter (\<lambda>v. nat (MAX_BYTES_PER_VALUE stg) < length v) (concat data) = []"
    by (auto simp: filter_empty_conv not_less)
  have "\<forall>row \<in> set data. map (take (nat (MAX_BYTES_PER_VALUE stg))) row = row"
    using s by (simp add: take_short)
  then have v: "map (map (take (nat (MAX_BYTES_PER_VALUE stg)))) data = data"
    by (simp add: map_idI)
  have "sum_list (map (\<lambda>row. sum_list (map length row)) data) \<le> nat (MAX_BYTES_TEXT_DATA stg)"
    using assms unfolding within_limits_def by linarith
  then have a: "accept_rows (nat (MAX_BYTES_TEXT_DATA stg)) data = data"
    by (rule accept_rows_all)
  have z: "truncation_warning ident 0 = []" for ident
    by (simp add: truncation_warning_def)
  show ?thesis
    unfolding spec_parse_csv_def Let_def list.case c w n r g v f a columns_of_def
    by (simp add: z)
qed

lemma spec_parse_csv_no_rows:
  "spec_parse_csv stg [labels] =
     (label_warnings stg labels
        @ truncation_warning ''columns''
            (length labels - length (take (nat (MAX_COLUMNS_PER_TABLE stg)) (clean_labels stg labels))),
      map (\<lambda>name. (name, [])) (take (nat (MAX_COLUMNS_PER_TABLE stg)) (clean_labels stg labels)))"
proof -
  have "map (\<lambda>j. (xs ! j, [])) [0..<length xs] = map (\<lambda>name. (name, [])) xs" for xs :: "string list"
    by (rule nth_equalityI) simp_all
  moreover have "length (clean_labels stg labels) = length labels"
  proof -
    have "length (autoname n ls) = length ls" for n ls
      by (induction ls arbitrary: n) simp_all
    moreover have "length (disambiguate n used ls) = length ls" for n used ls
      by (induction ls arbitrary: n used) (simp_all add: Let_def)
    ultimately show ?thesis by (simp add: clean_labels_def)
  qed
  moreover have "truncation_warning ident 0 = []" for ident
    by (simp add: truncation_warning_def)
  ultimately show ?thesis
    by (simp add: spec_parse_csv_def Let_def del: length_take)
qed

lemma spec_parse_csv_names:
  "map fst (snd (spec_parse_csv stg (labels # data)))
     = take (nat (MAX_COLUMNS_PER_TABLE stg)) (clean_labels stg labels)"
  by (simp add: spec_parse_csv_def Let_def comp_def map_nth del: length_take)

text \<open>
  On the input of \<^verbatim>\<open>test_render_v1_no_thead\<close> (two positional columns, one row)
  the parser of the specification gives the names and the one warning the test expects.
\<close>

lemma decimal_1_2: "decimal (Suc 0) = ''1''" "decimal (Suc (Suc 0)) = ''2''"
  by (simp_all add: decimal.simps [of "Suc 0"] decimal.simps [of "Suc (Suc 0)"])

lemma spec_parse_csv_no_thead:
  "spec_parse_csv DefaultSettings [merge_colspan_headers [IntName 0, IntName 1], [''a'', ''b'']]
   = ([I18nMessage ''util.colnames.warnings.default''
         [(''n_columns'', IntArg 2), (''first_colname'', StrArg ''Column 1'')] (Some ''cjwmodule'')],
      [(''Column 1'', [''a'']), (''Column 2'', [''b''])])"
  by (simp add: spec_parse_csv_def clean_labels_def label_warnings_def cleanup_warning_def
      truncation_warning_def cell_def merge_colspan_headers_def DefaultSettings_def
      decimal_1_2 Let_def)

text \<open>
  Claim C5, with the parser of the specification. With \<^verbatim>\<open>first_row_is_header\<close> set
  and at least one row, the first row is the header source and the supplied labels are
  discarded: the result is the same whatever labels are supplied, the column names are
  the cleaned first row, and for a grid within the limits the table is the first row as
  names over the remaining rows, with no diagnostic. With the flag set and no row, the
  supplied labels are the header over zero data rows and no error is produced: the table
  is the cleaned labels, each over no value, the diagnostics are those of the label
  cleanup and of the column limit, and for labels within the limits there is none. The
  labels \<open>A\<close>, \<open>B\<close> with no row give the columns \<open>A\<close> and \<open>B\<close>, zero rows and
  an empty diagnostic list.
\<close>

theorem first_row_is_header_resolution:
  "(rows table = first_row # data_rows \<longrightarrow>
      write_dataframe_as_arrow_table_and_handle_lots_of_edge_cases
        (ext\<lparr>parse_csv := spec_parse_csv\<rparr>) table True colnames stg
      = write_dataframe_as_arrow_table_and_handle_lots_of_edge_cases
        (ext\<lparr>parse_csv := spec_parse_csv\<rparr>) table True other_colnames stg
      \<and> map fst (snd (write_dataframe_as_arrow_table_and_handle_lots_of_edge_cases
            (ext\<lparr>parse_csv := spec_parse_csv\<rparr>) table True colnames stg))
        = take (nat (MAX_COLUMNS_PER_TABLE stg)) (clean_labels stg first_row)
      \<and> (within_limits stg first_row data_rows \<longrightarrow>
           write_dataframe_as_arrow_table_and_handle_lots_of_edge_cases
             (ext\<lparr>parse_csv := spec_parse_csv\<rparr>) table True colnames stg
           = ([], columns_of first_row data_rows)))
   \<and> (rows table = [] \<longrightarrow>
      write_dataframe_as_arrow_table_and_handle_lots_of_edge_cases
        (ext\<lparr>parse_csv := spec_parse_csv\<rparr>) table True colnames stg
      = (label_warnings stg colnames
           @ truncation_warning ''columns''
               (length colnames
                  - length (take (nat (MAX_COLUMNS_PER_TABLE stg)) (clean_labels stg colnames))),
         map (\<lambda>name. (name, []))
           (take (nat (MAX_COLUMNS_PER_TABLE stg)) (clean_labels stg colnames)))
      \<and> (within_limits stg colnames [] \<longrightarrow>
           write_dataframe_as_arrow_table_and_handle_lots_of_edge_cases
             (ext\<lparr>parse_csv := spec_parse_csv\<rparr>) table True colnames stg
           = ([], map (\<lambda>name. (name, [])) colnames)))
   \<and> write_dataframe_as_arrow_table_and_handle_lots_of_edge_cases
        (ext\<lparr>parse_csv := spec_parse_csv\<rparr>)
        \<lparr>columns = [StrName ''A'', StrName ''B''], rows = []\<rparr> True
        (merge_colspan_headers [StrName ''A'', StrName ''B'']) DefaultSettings
      = ([], [(''A'', []), (''B'', [])])"
proof -
  let ?w = "\<lambda>t names s. write_dataframe_as_arrow_table_and_handle_lots_of_edge_cases
        (ext\<lparr>parse_csv := spec_parse_csv\<rparr>) t True names s"
  have some: "?w table names stg = spec_parse_csv stg (first_row # data_rows)"
    if "rows table = first_row # data_rows" for names
    using that by (simp add: write_dataframe_as_arrow_table_and_handle_lots_of_edge_cases_def)
  have none: "?w t names s = spec_parse_csv s [names]" if "rows t = []" for t :: "'a dataframe" and names s
    using that by (simp add: write_dataframe_as_arrow_table_and_handle_lots_of_edge_cases_def)
  have 1: "?w table colnames stg = ?w table other_colnames stg"
    if "rows table = first_row # data_rows"
    using some [OF that] by simp
  have 2: "map fst (snd (?w table colnames stg))
        = take (nat (MAX_COLUMNS_PER_TABLE stg)) (clean_labels stg first_row)"
    if "rows table = first_row # data_rows"
    using some [OF that] by (simp only: spec_parse_csv_names)
  have 3: "?w table colnames stg = ([], columns_of first_row data_rows)"
    if "rows table = first_row # data_rows" "within_limits stg first_row data_rows"
    using some [OF that(1)] spec_parse_csv_within_limits [OF that(2)] by simp
  have 4: "?w table colnames stg
      = (label_warnings stg colnames
           @ truncation_warning ''columns''
               (length colnames
                  - length (take (nat (MAX_COLUMNS_PER_TABLE stg)) (clean_labels stg colnames))),
         map (\<lambda>name. (name, []))
           (take (nat (MAX_COLUMNS_PER_TABLE stg)) (clean_labels stg colnames)))"
    if "rows table = []"
    using none [OF that] by (simp only: spec_parse_csv_no_rows)
  have 5: "?w table colnames stg = ([], map (\<lambda>name. (name, [])) colnames)"
    if "rows table = []" "within_limits stg colnames []"
  proof -
    have "columns_of colnames [] = map (\<lambda>name. (name, [])) colnames"
      unfolding columns_of_def by (rule nth_equalityI) simp_all
    then show ?thesis
      using none [OF that(1)] spec_parse_csv_within_limits [OF that(2)] by simp
  qed
  have w: "within_limits DefaultSettings [''A'', ''B''] []"
    by (simp add: within_limits_def DefaultSettings_def)
  have 6: "?w \<lparr>columns = [StrName ''A'', StrName ''B''], rows = []\<rparr>
        (merge_colspan_headers [StrName ''A'', StrName ''B'']) DefaultSettings
      = ([], [(''A'', []), (''B'', [])])"
  proof -
    have "?w \<lparr>columns = [StrName ''A'', StrName ''B''], rows = []\<rparr> [''A'', ''B''] DefaultSettings
        = spec_parse_csv DefaultSettings [[''A'', ''B'']]"
      by (simp add: write_dataframe_as_arrow_table_and_handle_lots_of_edge_cases_def)
    moreover have "columns_of [''A'', ''B''] [] = [(''A'', []), (''B'', [])]"
      by (simp add: columns_of_def)
    moreover have "merge_colspan_headers [StrName ''A'', StrName ''B''] = [''A'', ''B'']"
      by (simp add: merge_colspan_headers_def)
    ultimately show ?thesis
      using spec_parse_csv_within_limits [OF w] by simp
  qed
  show ?thesis using 1 2 3 4 5 6 by blast
qed

theorem first_row_is_header_resolution_witness:
  "write_dataframe_as_arrow_table_and_handle_lots_of_edge_cases
     (spec_libraries [])
     \<lparr>columns = [StrName ''A'', StrName ''B''], rows = [[''1'', ''a''], [''2'', ''b'']]\<rparr>
     True [''A'', ''B''] DefaultSettings
   = ([], [(''1'', [''2'']), (''a'', [''b''])])
   \<and> write_dataframe_as_arrow_table_and_handle_lots_of_edge_cases
     (spec_libraries [])
     \<lparr>columns = [StrName ''A'', StrName ''B''], rows = []\<rparr>
     True [''A'', ''B''] DefaultSettings
   = ([], [(''A'', []), (''B'', [])])"
proof -
  let ?full = "\<lparr>columns = [StrName ''A'', StrName ''B''], rows = [[''1'', ''a''], [''2'', ''b'']]\<rparr>"
  let ?bare = "\<lparr>columns = [StrName ''A'', StrName ''B''], rows = []\<rparr> :: colname dataframe"
  have e: "(spec_libraries [])\<lparr>parse_csv := spec_parse_csv\<rparr> = spec_libraries []"
    by (simp add: spec_libraries_def)
  have h1: "rows ?full = [''1'', ''a''] # [[''2'', ''b'']]" by simp
  have h2: "within_limits DefaultSettings [''1'', ''a''] [[''2'', ''b'']]"
    by (simp add: within_limits_def DefaultSettings_def)
  have h3: "rows ?bare = []" by simp
  have h4: "within_limits DefaultSettings [''A'', ''B''] []"
    by (simp add: within_limits_def DefaultSettings_def)
  have c1: "columns_of [''1'', ''a''] [[''2'', ''b'']] = [(''1'', [''2'']), (''a'', [''b''])]"
    by (simp add: columns_of_def)
  have r1: "write_dataframe_as_arrow_table_and_handle_lots_of_edge_cases
     (spec_libraries []) ?full True [''A'', ''B''] DefaultSettings
     = ([], columns_of [''1'', ''a''] [[''2'', ''b'']])"
    using h1 h2
      first_row_is_header_resolution
        [of ?full "[''1'', ''a'']" "[[''2'', ''b'']]" "spec_libraries []" "[''A'', ''B'']"
            DefaultSettings "[''A'', ''B'']", unfolded e]
    by blast
  have r2: "write_dataframe_as_arrow_table_and_handle_lots_of_edge_cases
     (spec_libraries []) ?bare True [''A'', ''B''] DefaultSettings
     = ([], map (\<lambda>name. (name, [])) [''A'', ''B''])"
    using h3 h4
      first_row_is_header_resolution
        [of ?bare "[''1'', ''a'']" "[[''2'', ''b'']]" "spec_libraries []" "[''A'', ''B'']"
            DefaultSettings "[''A'', ''B'']", unfolded e]
    by blast
  show ?thesis using r1 r2 c1 by simp
qed

section \<open>The render pipeline\<close>

text \<open>
  Claim C8. When the fetched file has zero bytes, render returns the messages of the
  fetch errors and nothing else, and writes no table.
\<close>

theorem render_empty_file:
  assumes "st_size (path fetch_result) = 0"
  shows "render ext prm fetch_result stg = (map (\<lambda>e. Msg (message e)) (errors fetch_result), None)"
  using assms by (simp add: render_def)

theorem render_empty_file_witness:
  "render (test_libraries []) (P 1 False) \<lparr>path = empty_file, errors = [RenderError HttpErrorTimeout []]\<rparr>
     DefaultSettings = ([Msg HttpErrorTimeout], None)"
proof -
  have h: "st_size (path \<lparr>path = empty_file, errors = [RenderError HttpErrorTimeout []]\<rparr>) = 0"
    by (simp add: empty_file_def)
  show ?thesis
    using render_empty_file [OF h, of "test_libraries []" "P 1 False" DefaultSettings] by simp
qed

text \<open>
  Claim C1. For a file that is neither empty nor Parquet, a status line other than
  \<open>200 OK\<close> (every status line that is not a success is one) makes render append the
  single message \<open>http.notOk\<close>, whose \<open>httpStatus\<close> is the status line as it
  stands, return at once, and write no table.
\<close>

theorem render_http_not_ok:
  assumes "st_size (path fetch_result) \<noteq> 0"
    and "\<not> file_has_parquet_magic_number (path fetch_result)"
    and "status_line (httpfile_read (path fetch_result)) \<noteq> ''200 OK''"
  shows "render ext prm fetch_result stg =
     (map (\<lambda>e. Msg (message e)) (errors fetch_result)
        @ [Msg (I18nMessage ''http.notOk''
                  [(''httpStatus'', StrArg (status_line (httpfile_read (path fetch_result))))]
                  (Some ''module''))],
      None)"
  using assms by (simp add: render_def trans_msg_def)

theorem render_http_not_ok_witness:
  "render (test_libraries []) (P 1 True)
     \<lparr>path = temp_httpfile ''404 Not Found'' ''<html><body>Not found</body></html>''
               [(''Content-Type'', ''text/html; charset=utf-8'')],
      errors = []\<rparr> DefaultSettings
   = ([Msg (I18nMessage ''http.notOk'' [(''httpStatus'', StrArg ''404 Not Found'')] (Some ''module''))],
      None)"
proof -
  let ?f = "\<lparr>path = temp_httpfile ''404 Not Found'' ''<html><body>Not found</body></html>''
               [(''Content-Type'', ''text/html; charset=utf-8'')],
      errors = []\<rparr>"
  have h1: "st_size (path ?f) \<noteq> 0" by (simp add: temp_httpfile_def)
  have h2: "\<not> file_has_parquet_magic_number (path ?f)" by (simp add: temp_httpfile_def)
  have h3: "status_line (httpfile_read (path ?f)) \<noteq> ''200 OK''" by (simp add: temp_httpfile_def)
  show ?thesis
    using render_http_not_ok [OF h1 h2 h3, of "test_libraries []" "P 1 True" DefaultSettings]
    by (simp add: temp_httpfile_def)
qed

text \<open>
  Claim C4. When the page has tables and the requested position is not within
  1 and their number, render appends the single message \<open>params.badTablenum\<close>, whose
  \<open>nTables\<close> is the number of tables, stops, and writes no table. The instance is the
  page with one table, asked for table 2.
\<close>

theorem render_bad_tablenum:
  assumes "st_size (path fetch_result) \<noteq> 0"
    and "\<not> file_has_parquet_magic_number (path fetch_result)"
    and "status_line (httpfile_read (path fetch_result)) = ''200 OK''"
    and "pd_io_html_parse ext (body (httpfile_read (path fetch_result)))
           (encoding (extract_first_header ext (headers (httpfile_read (path fetch_result)))
              ''Content-Type''))
         = Tables tables"
    and "tables \<noteq> []"
    and "tablenum prm \<le> 0 \<or> tablenum prm > int (length tables)"
  shows "render ext prm fetch_result stg =
     (map (\<lambda>e. Msg (message e)) (errors fetch_result)
        @ [Msg (I18nMessage ''params.badTablenum''
                  [(''nTables'', IntArg (int (length tables)))] (Some ''module''))],
      None)"
  using assms by (simp add: render_def trans_msg_def)

theorem render_bad_tablenum_witness:
  "render (test_libraries [\<lparr>columns = [StrName ''A''], rows = [[''a'']]\<rparr>]) (P 2 False)
     \<lparr>path = temp_httpfile ''200 OK'' ''<table><tr><th>A</th></tr><tr><td>a</td></tr></table>''
               [(''Content-Type'', ''text/html; charset=utf-8'')],
      errors = []\<rparr> DefaultSettings
   = ([Msg (I18nMessage ''params.badTablenum'' [(''nTables'', IntArg 1)] (Some ''module''))], None)"
proof -
  let ?f = "\<lparr>path = temp_httpfile ''200 OK'' ''<table><tr><th>A</th></tr><tr><td>a</td></tr></table>''
               [(''Content-Type'', ''text/html; charset=utf-8'')],
      errors = []\<rparr>"
  let ?t = "[\<lparr>columns = [StrName ''A''], rows = [[''a'']]\<rparr>]"
  have h1: "st_size (path ?f) \<noteq> 0" by (simp add: temp_httpfile_def)
  have h2: "\<not> file_has_parquet_magic_number (path ?f)" by (simp add: temp_httpfile_def)
  have h3: "status_line (httpfile_read (path ?f)) = ''200 OK''" by (simp add: temp_httpfile_def)
  have h4: "pd_io_html_parse (test_libraries ?t) (body (httpfile_read (path ?f)))
           (encoding (extract_first_header (test_libraries ?t) (headers (httpfile_read (path ?f)))
              ''Content-Type''))
         = Tables ?t" by (simp add: test_libraries_def)
  have h5: "?t \<noteq> []" by simp
  have h6: "tablenum (P 2 False) \<le> 0 \<or> tablenum (P 2 False) > int (length ?t)"
    by (simp add: P_def)
  show ?thesis
    using render_bad_tablenum [OF h1 h2 h3 h4 h5 h6, of DefaultSettings]
    by simp
qed

text \<open>
  When the page has tables and the requested position is among them, render returns
  the fetch messages followed by the warnings of the normalization, and the table is
  written. The HTML parser enters render only through its result, and the CSV stage
  does not use it.
\<close>

lemma render_table_written:
  assumes "st_size (path fetch_result) \<noteq> 0"
    and "\<not> file_has_parquet_magic_number (path fetch_result)"
    and "status_line (httpfile_read (path fetch_result)) = ''200 OK''"
    and "pd_io_html_parse ext (body (httpfile_read (path fetch_result)))
           (encoding (extract_first_header ext (headers (httpfile_read (path fetch_result)))
              ''Content-Type''))
         = Tables tables"
    and "0 < tablenum prm" and "tablenum prm \<le> int (length tables)"
  shows "render ext prm fetch_result stg =
     (map (\<lambda>e. Msg (message e)) (errors fetch_result)
        @ map Msg (fst (write_dataframe_as_arrow_table_and_handle_lots_of_edge_cases ext
            (tables ! nat (tablenum prm - 1)) (first_row_is_header prm)
            (merge_colspan_headers (columns (tables ! nat (tablenum prm - 1)))) stg)),
      Some (snd (write_dataframe_as_arrow_table_and_handle_lots_of_edge_cases ext
            (tables ! nat (tablenum prm - 1)) (first_row_is_header prm)
            (merge_colspan_headers (columns (tables ! nat (tablenum prm - 1)))) stg)))"
proof -
  have "tables \<noteq> []" using assms(5,6) by auto
  then show ?thesis
    using assms by (simp add: render_def Let_def split: prod.splits)
qed

lemma write_dataframe_other_parser:
  "write_dataframe_as_arrow_table_and_handle_lots_of_edge_cases
     (ext\<lparr>pd_io_html_parse := f\<rparr>) table is_header colnames stg
   = write_dataframe_as_arrow_table_and_handle_lots_of_edge_cases ext table is_header colnames stg"
  by (simp add: write_dataframe_as_arrow_table_and_handle_lots_of_edge_cases_def)

lemma render_v0_other_parser:
  "render_v0 (ext\<lparr>pd_io_html_parse := f\<rparr>) fetch_result prm stg
   = render_v0 ext fetch_result prm stg"
  by (simp add: render_v0_def write_dataframe_other_parser)

lemma render_parser_called_without_hint:
  assumes "encoding (extract_first_header ext (headers (httpfile_read (path fetch_result)))
              ''Content-Type'') = None"
  shows "render ext prm fetch_result stg =
     render (ext\<lparr>pd_io_html_parse := \<lambda>content enc. pd_io_html_parse ext content None\<rparr>)
       prm fetch_result stg"
  using assms
  by (simp add: render_def Let_def write_dataframe_other_parser render_v0_other_parser
      split: parse_outcome.splits)

text \<open>
  On the empty path and on the HTTP path, whatever happens next, the returned list
  starts with the messages of the fetch errors in their order.
\<close>

lemma render_prefix_unless_legacy:
  assumes "st_size (path fetch_result) = 0 \<or> \<not> file_has_parquet_magic_number (path fetch_result)"
  shows "prefix (map (\<lambda>e. Msg (message e)) (errors fetch_result))
           (fst (render ext prm fetch_result stg))"
  using assms
  by (auto simp: render_def Let_def split: parse_outcome.splits prod.splits)

lemma render_v0_list:
  "fst (render_v0 ext fetch_result prm stg) =
     map Err (errors fetch_result)
     @ map Msg (fst (write_dataframe_as_arrow_table_and_handle_lots_of_edge_cases ext
         (open_as_mmapped_arrow (path fetch_result)) (first_row_is_header prm)
         (columns (open_as_mmapped_arrow (path fetch_result))) stg))"
  by (simp add: render_v0_def Let_def split: prod.splits)

text \<open>
  Claim C3. The returned list is to begin with the fetch diagnostics on every path. On
  the Parquet path it does not: \<^verbatim>\<open>_render_v0\<close> returns
  \<^verbatim>\<open>fetch_result.errors + render_errors\<close>, so for the Parquet file of the test suite
  carried in with one fetch error (a timeout) the list starts with the
  \<^verbatim>\<open>RenderError\<close> tuple, not with its message, whatever the libraries do.
\<close>

theorem render_v0_keeps_render_errors:
  "fst (render ext (P 1 False)
          \<lparr>path = temp_parquet_file
                    \<lparr>columns = [''A'', ''B''], rows = [[''1'', ''a''], [''2'', ''b'']]\<rparr>,
           errors = [RenderError HttpErrorTimeout []]\<rparr> stg)
     = Err (RenderError HttpErrorTimeout [])
       # map Msg (fst (parse_csv ext stg [[''A'', ''B''], [''1'', ''a''], [''2'', ''b'']]))
   \<and> \<not> prefix (map (\<lambda>e. Msg (message e)) [RenderError HttpErrorTimeout []])
         (fst (render ext (P 1 False)
          \<lparr>path = temp_parquet_file
                    \<lparr>columns = [''A'', ''B''], rows = [[''1'', ''a''], [''2'', ''b'']]\<rparr>,
           errors = [RenderError HttpErrorTimeout []]\<rparr> stg))"
  by (simp add: render_def render_v0_list temp_parquet_file_def P_def
      write_dataframe_as_arrow_table_and_handle_lots_of_edge_cases_def)

section \<open>The charset of the Content-Type\<close>

lemma str_split_no_occurrence:
  "\<not> sublist sep s \<Longrightarrow> str_split sep s = [s]"
proof (induction s)
  case Nil
  show ?case by simp
next
  case (Cons c cs)
  from Cons.prems have "\<not> prefix sep (c # cs)" and "\<not> sublist sep cs"
    by (simp_all add: sublist_Cons_right)
  then show ?case using Cons.IH by simp
qed

lemma prefix_before_occurrence:
  assumes "sep \<noteq> []" and "prefix sep (c # pre @ sep @ post)"
  shows "prefix sep (c # pre @ butlast sep)"
proof -
  have "sep = butlast sep @ [last sep]"
    using assms(1) by simp
  then have "c # pre @ sep @ post = (c # pre @ butlast sep) @ last sep # post"
    by (metis append.assoc append_Cons append_Nil)
  then have "prefix (c # pre @ butlast sep) (c # pre @ sep @ post)"
    by (metis prefixI)
  moreover have "length sep \<le> length (c # pre @ butlast sep)"
    by simp
  ultimately show ?thesis
    using assms(2) prefix_length_prefix by blast
qed

lemma str_split_first_occurrence:
  assumes "sep \<noteq> []"
  shows "\<not> sublist sep (pre @ butlast sep) \<Longrightarrow>
         str_split sep (pre @ sep @ post) = pre # str_split sep post"
proof (induction pre)
  case Nil
  obtain c cs where s: "sep = c # cs"
    using assms by (cases sep) auto
  have "str_split sep ((c # cs) @ post) = [] # str_split sep (drop (length sep) ((c # cs) @ post))"
    using s by simp
  then show ?case using s by simp
next
  case (Cons c pre)
  have "\<not> prefix sep (c # pre @ butlast sep)" and n: "\<not> sublist sep (pre @ butlast sep)"
    using Cons.prems by (simp_all add: sublist_Cons_right)
  then have "\<not> prefix sep (c # pre @ sep @ post)"
    using prefix_before_occurrence [OF assms] by blast
  then show ?case using Cons.IH [OF n] by simp
qed

text \<open>
  Claim C10, as stated: when the Content-Type value contains \<open>charset=\<close>, the
  encoding is the text after that substring. A value with two occurrences refutes it:
  the encoding is the text between them, which the value does not end with.
\<close>

theorem encoding_two_charsets:
  "sublist ''charset='' ''charset=a charset=b''
   \<and> encoding (Some ''charset=a charset=b'') = Some ''a ''
   \<and> \<not> suffix (''charset='' @ ''a '') ''charset=a charset=b''"
  by (simp add: encoding_def sublist_Cons_right suffix_def Cons_eq_append_conv)

text \<open>
  Claim C10, amended. Reading the encoding never fails. It is \<open>None\<close> when there is
  no Content-Type value, when the value is empty, and when the value does not contain
  \<open>charset=\<close>. When the value contains \<open>charset=\<close>, the encoding is the text after
  its first occurrence, up to the next occurrence of \<open>charset=\<close> if there is one and
  to the end of the value otherwise. With the encoding \<open>None\<close> parsing proceeds and
  nothing errs for want of a hint: render calls the HTML parser with no encoding, so that
  its result is that of the parser called without one, and when that call finds tables
  and the requested position is among them, render returns the fetch messages and the
  warnings of the normalization, and writes the table.
\<close>

theorem encoding_charset:
  "encoding None = None
   \<and> encoding (Some []) = None
   \<and> (\<not> sublist ''charset='' ct \<longrightarrow> encoding (Some ct) = None)
   \<and> (ct = pre @ ''charset='' @ post \<and> \<not> sublist ''charset='' (pre @ ''charset'')
        \<and> \<not> sublist ''charset='' post
      \<longrightarrow> encoding (Some ct) = Some post)
   \<and> (ct = pre @ ''charset='' @ mid @ ''charset='' @ rest
        \<and> \<not> sublist ''charset='' (pre @ ''charset'')
        \<and> \<not> sublist ''charset='' (mid @ ''charset'')
      \<longrightarrow> encoding (Some ct) = Some mid)
   \<and> (encoding (extract_first_header ext (headers (httpfile_read (path fetch_result)))
          ''Content-Type'') = None
      \<longrightarrow> render ext prm fetch_result stg
          = render (ext\<lparr>pd_io_html_parse := \<lambda>content enc. pd_io_html_parse ext content None\<rparr>)
              prm fetch_result stg)
   \<and> (st_size (path fetch_result) \<noteq> 0
        \<and> \<not> file_has_parquet_magic_number (path fetch_result)
        \<and> status_line (httpfile_read (path fetch_result)) = ''200 OK''
        \<and> encoding (extract_first_header ext (headers (httpfile_read (path fetch_result)))
             ''Content-Type'') = None
        \<and> pd_io_html_parse ext (body (httpfile_read (path fetch_result))) None = Tables tables
        \<and> 0 < tablenum prm \<and> tablenum prm \<le> int (length tables)
      \<longrightarrow> render ext prm fetch_result stg =
          (map (\<lambda>e. Msg (message e)) (errors fetch_result)
             @ map Msg (fst (write_dataframe_as_arrow_table_and_handle_lots_of_edge_cases ext
                 (tables ! nat (tablenum prm - 1)) (first_row_is_header prm)
                 (merge_colspan_headers (columns (tables ! nat (tablenum prm - 1)))) stg)),
           Some (snd (write_dataframe_as_arrow_table_and_handle_lots_of_edge_cases ext
                 (tables ! nat (tablenum prm - 1)) (first_row_is_header prm)
                 (merge_colspan_headers (columns (tables ! nat (tablenum prm - 1)))) stg))))"
proof -
  have b: "butlast ''charset='' = ''charset''" by simp
  have ne: "''charset='' \<noteq> []" by simp
  have first: "str_split ''charset='' (p @ ''charset='' @ q) = p # str_split ''charset='' q"
    if "\<not> sublist ''charset='' (p @ ''charset'')" for p q
  proof -
    have "\<not> sublist ''charset='' (p @ butlast ''charset='')"
      using that by simp
    then show ?thesis by (rule str_split_first_occurrence [OF ne])
  qed
  have 1: "encoding None = None" by (simp add: encoding_def)
  have 2: "encoding (Some []) = None" by (simp add: encoding_def)
  have 3: "encoding (Some ct) = None" if "\<not> sublist ''charset='' ct"
    using str_split_no_occurrence [OF that] by (simp add: encoding_def)
  have 4: "encoding (Some ct) = Some post"
    if "ct = pre @ ''charset='' @ post" "\<not> sublist ''charset='' (pre @ ''charset'')"
       "\<not> sublist ''charset='' post"
  proof -
    have "str_split ''charset='' ct = [pre, post]"
      using first [OF that(2), of post] str_split_no_occurrence [OF that(3)] that(1) by simp
    moreover have "ct \<noteq> []" using that(1) by simp
    ultimately show ?thesis by (simp add: encoding_def)
  qed
  have 5: "encoding (Some ct) = Some mid"
    if "ct = pre @ ''charset='' @ mid @ ''charset='' @ rest"
       "\<not> sublist ''charset='' (pre @ ''charset'')"
       "\<not> sublist ''charset='' (mid @ ''charset'')"
  proof -
    have "str_split ''charset='' ct = pre # mid # str_split ''charset='' rest"
      using first [OF that(2), of "mid @ ''charset='' @ rest"] first [OF that(3), of rest] that(1)
      by simp
    moreover have "ct \<noteq> []" using that(1) by simp
    ultimately show ?thesis by (simp add: encoding_def)
  qed
  note 6 = render_parser_called_without_hint [of ext fetch_result prm stg]
  have 7: "render ext prm fetch_result stg =
          (map (\<lambda>e. Msg (message e)) (errors fetch_result)
             @ map Msg (fst (write_dataframe_as_arrow_table_and_handle_lots_of_edge_cases ext
                 (tables ! nat (tablenum prm - 1)) (first_row_is_header prm)
                 (merge_colspan_headers (columns (tables ! nat (tablenum prm - 1)))) stg)),
           Some (snd (write_dataframe_as_arrow_table_and_handle_lots_of_edge_cases ext
                 (tables ! nat (tablenum prm - 1)) (first_row_is_header prm)
                 (merge_colspan_headers (columns (tables ! nat (tablenum prm - 1)))) stg)))"
    if "st_size (path fetch_result) \<noteq> 0"
       "\<not> file_has_parquet_magic_number (path fetch_result)"
       "status_line (httpfile_read (path fetch_result)) = ''200 OK''"
       "encoding (extract_first_header ext (headers (httpfile_read (path fetch_result)))
             ''Content-Type'') = None"
       "pd_io_html_parse ext (body (httpfile_read (path fetch_result))) None = Tables tables"
       "0 < tablenum prm" "tablenum prm \<le> int (length tables)"
    using render_table_written [OF that(1,2,3) _ that(6,7), of ext stg] that(4,5) by simp
  show ?thesis using 1 2 3 4 5 6 7 by blast
qed

theorem encoding_charset_witness:
  "encoding (Some ''text/html'') = None
   \<and> encoding (Some ''text/html; charset=utf-8'') = Some ''utf-8''
   \<and> encoding (Some ''a; charset=b; charset=c'') = Some ''b; ''
   \<and> render (test_libraries [\<lparr>columns = [StrName ''e''], rows = [[''a'']]\<rparr>]) (P 1 False)
        \<lparr>path = temp_httpfile ''200 OK'' ''<table><thead><tr><th>e</th></tr></thead></table>''
                  [(''Content-Type'', ''text/html'')],
         errors = []\<rparr> DefaultSettings
       = ([], Some [[''e''], [''a'']])
   \<and> render ((test_libraries [\<lparr>columns = [StrName ''e''], rows = [[''a'']]\<rparr>])
                \<lparr>pd_io_html_parse := \<lambda>content enc.
                   pd_io_html_parse (test_libraries [\<lparr>columns = [StrName ''e''], rows = [[''a'']]\<rparr>])
                     content None\<rparr>)
        (P 1 False)
        \<lparr>path = temp_httpfile ''200 OK'' ''<table><thead><tr><th>e</th></tr></thead></table>''
                  [(''Content-Type'', ''text/html'')],
         errors = []\<rparr> DefaultSettings
       = ([], Some [[''e''], [''a'']])"
proof -
  let ?tables = "[\<lparr>columns = [StrName ''e''], rows = [[''a'']]\<rparr>]"
  let ?ext = "test_libraries ?tables"
  let ?f = "\<lparr>path = temp_httpfile ''200 OK'' ''<table><thead><tr><th>e</th></tr></thead></table>''
                  [(''Content-Type'', ''text/html'')],
         errors = []\<rparr>"
  have h3: "\<not> sublist ''charset='' ''text/html''"
    by (simp add: sublist_Cons_right)
  have h4: "''text/html; charset=utf-8'' = ''text/html; '' @ ''charset='' @ ''utf-8''
      \<and> \<not> sublist ''charset='' (''text/html; '' @ ''charset'')
      \<and> \<not> sublist ''charset='' ''utf-8''"
    by (simp add: sublist_Cons_right)
  have h5: "''a; charset=b; charset=c'' = ''a; '' @ ''charset='' @ ''b; '' @ ''charset='' @ ''c''
      \<and> \<not> sublist ''charset='' (''a; '' @ ''charset'')
      \<and> \<not> sublist ''charset='' (''b; '' @ ''charset'')"
    by (simp add: sublist_Cons_right)
  have e1: "encoding (Some ''text/html'') = None"
    using h3 encoding_charset [of "''text/html''"] by blast
  have e2: "encoding (Some ''text/html; charset=utf-8'') = Some ''utf-8''"
    using h4 encoding_charset [of "''text/html; charset=utf-8''" "''text/html; ''" "''utf-8''"]
    by blast
  have e3: "encoding (Some ''a; charset=b; charset=c'') = Some ''b; ''"
    using h5 encoding_charset [of "''a; charset=b; charset=c''" "''a; ''" _ "''b; ''" "''c''"]
    by blast
  have g1: "st_size (path ?f) \<noteq> 0" by (simp add: temp_httpfile_def)
  have g2: "\<not> file_has_parquet_magic_number (path ?f)" by (simp add: temp_httpfile_def)
  have g3: "status_line (httpfile_read (path ?f)) = ''200 OK''" by (simp add: temp_httpfile_def)
  have g4: "encoding (extract_first_header ?ext (headers (httpfile_read (path ?f)))
             ''Content-Type'') = None"
    using e1 by (simp add: temp_httpfile_def test_libraries_def)
  have g5: "pd_io_html_parse ?ext (body (httpfile_read (path ?f))) None = Tables ?tables"
    by (simp add: test_libraries_def)
  have g6: "0 < tablenum (P 1 False) \<and> tablenum (P 1 False) \<le> int (length ?tables)"
    by (simp add: P_def)
  have w: "write_dataframe_as_arrow_table_and_handle_lots_of_edge_cases ?ext
             (?tables ! nat (tablenum (P 1 False) - 1)) (first_row_is_header (P 1 False))
             (merge_colspan_headers (columns (?tables ! nat (tablenum (P 1 False) - 1))))
             DefaultSettings
           = ([], [[''e''], [''a'']])"
    by (simp add: write_dataframe_as_arrow_table_and_handle_lots_of_edge_cases_def
        test_libraries_def P_def merge_colspan_headers_def)
  have r: "render ?ext (P 1 False) ?f DefaultSettings
      = (map (\<lambda>e. Msg (message e)) (errors ?f)
           @ map Msg (fst (write_dataframe_as_arrow_table_and_handle_lots_of_edge_cases ?ext
               (?tables ! nat (tablenum (P 1 False) - 1)) (first_row_is_header (P 1 False))
               (merge_colspan_headers (columns (?tables ! nat (tablenum (P 1 False) - 1))))
               DefaultSettings)),
         Some (snd (write_dataframe_as_arrow_table_and_handle_lots_of_edge_cases ?ext
               (?tables ! nat (tablenum (P 1 False) - 1)) (first_row_is_header (P 1 False))
               (merge_colspan_headers (columns (?tables ! nat (tablenum (P 1 False) - 1))))
               DefaultSettings)))"
    using g1 g2 g3 g4 g5 g6
      encoding_charset [where ext = ?ext and fetch_result = ?f and prm = "P 1 False"
        and stg = DefaultSettings and tables = ?tables]
    by blast
  have r1: "render ?ext (P 1 False) ?f DefaultSettings = ([], Some [[''e''], [''a'']])"
    unfolding r w by simp
  have "render ?ext (P 1 False) ?f DefaultSettings
      = render (?ext\<lparr>pd_io_html_parse := \<lambda>content enc. pd_io_html_parse ?ext content None\<rparr>)
          (P 1 False) ?f DefaultSettings"
    using g4
      encoding_charset [where ext = ?ext and fetch_result = ?f and prm = "P 1 False"
        and stg = DefaultSettings]
    by blast
  then show ?thesis using e1 e2 e3 r1 by simp
qed

end
